theory Spec2Isabelle
  imports Main
begin

section \<open>JavaScript values\<close>

text \<open>
  The toolbar component of
  \<^verbatim>\<open>packages/block-editor/src/components/block-toolbar/index.js\<close> computes with
  values whose JavaScript type is not fixed: \<^verbatim>\<open>isValid\<close> is either \<^verbatim>\<open>null\<close> or
  whatever the selector \<^verbatim>\<open>isBlockValid\<close> returns, \<^verbatim>\<open>hasMovers\<close> is
  \<^verbatim>\<open>undefined\<close> unless the block list settings define it. The operators
  \<^verbatim>\<open>&&\<close> and \<^verbatim>\<open>||\<close> return one of their operands, chosen by the truthiness of the
  first. Numbers are integers here (\<^verbatim>\<open>NaN\<close> is not represented).
\<close>

datatype jsval = JUndefined | JNull | JBool bool | JNum int | JStr string

fun truthy :: "jsval \<Rightarrow> bool" where
  "truthy JUndefined = False"
| "truthy JNull = False"
| "truthy (JBool b) = b"
| "truthy (JNum n) = (n \<noteq> 0)"
| "truthy (JStr s) = (s \<noteq> [])"

definition js_and :: "jsval \<Rightarrow> jsval \<Rightarrow> jsval" where
  "js_and a b = (if truthy a then b else a)"

definition js_or :: "jsval \<Rightarrow> jsval \<Rightarrow> jsval" where
  "js_or a b = (if truthy a then a else b)"

definition strict_eq :: "jsval \<Rightarrow> jsval \<Rightarrow> jsval" where
  "strict_eq a b = JBool (a = b)"

text \<open>
  \<^verbatim>\<open>xs[ 0 ]\<close> on an array of client ids: \<^verbatim>\<open>undefined\<close> when the array is empty.
\<close>

definition index0 :: "string list \<Rightarrow> jsval" where
  "index0 xs = (case xs of [] \<Rightarrow> JUndefined | x # _ \<Rightarrow> JStr x)"

text \<open>
  A destructuring default (\<^verbatim>\<open>{ hasMovers = true }\<close>) replaces \<^verbatim>\<open>undefined\<close> only.
\<close>

definition with_default :: "jsval \<Rightarrow> jsval \<Rightarrow> jsval" where
  "with_default d v = (if v = JUndefined then d else v)"

section \<open>The block editor store, as the toolbar reads it\<close>

text \<open>
  The selectors of \<^verbatim>\<open>select( 'core/block-editor' )\<close> live outside this file; they are
  taken as parameters. A settings object is absent (\<open>None\<close>, which
  \<^verbatim>\<open>|| {}\<close> replaces by the empty object) or has the two properties the toolbar
  destructures; \<^verbatim>\<open>__experimentalUIParts\<close> is absent (\<open>None\<close>, replaced by the
  default \<^verbatim>\<open>{}\<close>) or an object whose \<^verbatim>\<open>hasMovers\<close> property is read.
\<close>

record ui_parts =
  parts_hasMovers :: jsval

record block_list_settings =
  experimentalMoverDirection :: jsval
  experimentalUIParts :: "ui_parts option"

record block_editor_store =
  getSelectedBlockClientIds :: "string list"
  getBlockRootClientId :: "jsval \<Rightarrow> jsval"
  getBlockListSettings :: "jsval \<Rightarrow> block_list_settings option"
  isBlockValid :: "jsval \<Rightarrow> jsval"
  getBlockMode :: "jsval \<Rightarrow> jsval"

text \<open>The object returned by the callback given to \<^verbatim>\<open>useSelect\<close> (lines 24 to 54).\<close>

record toolbar_selection =
  blockClientIds :: "string list"
  rootClientId :: jsval
  isValid :: jsval
  mode :: jsval
  moverDirection :: jsval
  hasMovers :: jsval

definition empty_object :: block_list_settings where
  "empty_object = \<lparr>experimentalMoverDirection = JUndefined, experimentalUIParts = None\<rparr>"

definition empty_parts :: ui_parts where
  "empty_parts = \<lparr>parts_hasMovers = JUndefined\<rparr>"

definition mapSelect :: "block_editor_store \<Rightarrow> toolbar_selection" where
  "mapSelect st =
     (let selectedBlockClientIds = getSelectedBlockClientIds st;
          blockRootClientId = getBlockRootClientId st (index0 selectedBlockClientIds);
          settings = (case getBlockListSettings st blockRootClientId of
                        None \<Rightarrow> empty_object | Some s \<Rightarrow> s);
          uiParts = (case experimentalUIParts settings of
                       None \<Rightarrow> empty_parts | Some p \<Rightarrow> p)
      in \<lparr>blockClientIds = selectedBlockClientIds,
          rootClientId = blockRootClientId,
          isValid = (if length selectedBlockClientIds = 1
                     then isBlockValid st (index0 selectedBlockClientIds)
                     else JNull),
          mode = (if length selectedBlockClientIds = 1
                  then getBlockMode st (index0 selectedBlockClientIds)
                  else JNull),
          moverDirection = experimentalMoverDirection settings,
          hasMovers = parts_hasMovers uiParts\<rparr>)"

section \<open>The rendered tree\<close>

text \<open>
  The element tree that \<^verbatim>\<open>BlockToolbar\<close> returns. A \<open>Div\<close> carries its class name,
  the ref attached to it, whether the gesture handlers of \<^verbatim>\<open>useShowMoversGestures\<close>
  are spread onto it, its inline style and its children. \<open>Value v\<close> is a JavaScript
  value in child position: what \<^verbatim>\<open>{ c && <X /> }\<close> leaves when \<^verbatim>\<open>c\<close> is falsy.
\<close>

datatype node_ref = ContainerNodeRef | NodeRef

record style =
  opacity :: int
  transform :: string

datatype node =
    Div string "node_ref option" bool "style option" "node list"
  | Fragment "node list"
  | Value jsval
  | BlockMover "string list" jsval jsval
  | BlockSwitcher "string list"
  | BlockControls_Slot bool string
  | BlockFormatControls_Slot bool string
  | BlockSettingsMenu "string list"

definition jsx_and :: "jsval \<Rightarrow> node \<Rightarrow> node" where
  "jsx_and c x = (if truthy c then x else Value c)"

text \<open>The named constants of the component body (lines 64 to 73).\<close>

definition shouldShowVisualToolbar :: "toolbar_selection \<Rightarrow> jsval" where
  "shouldShowVisualToolbar sel = js_and (isValid sel) (strict_eq (mode sel) (JStr ''visual''))"

definition isMultiToolbar :: "toolbar_selection \<Rightarrow> bool" where
  "isMultiToolbar sel = (length (blockClientIds sel) > 1)"

definition shouldShowMovers :: "toolbar_selection \<Rightarrow> bool \<Rightarrow> bool \<Rightarrow> jsval" where
  "shouldShowMovers sel showMovers isSmallerViewport =
     js_or (JBool isSmallerViewport)
       (js_and (JBool showMovers) (with_default (JBool True) (hasMovers sel)))"

definition animatedMoverStyles :: "jsval \<Rightarrow> style" where
  "animatedMoverStyles show =
     \<lparr>opacity = (if truthy show then 1 else 0),
      transform = (if truthy show then ''translateX(0px)'' else ''translateX(100%)'')\<rparr>"

text \<open>
  The component. Its arguments are the prop \<^verbatim>\<open>hideDragHandle\<close>, the store, the
  \<^verbatim>\<open>showMovers\<close> state of \<^verbatim>\<open>useShowMoversGestures\<close> and the result of
  \<^verbatim>\<open>getIsSmallerViewport()\<close>.
\<close>

definition BlockToolbar :: "jsval \<Rightarrow> block_editor_store \<Rightarrow> bool \<Rightarrow> bool \<Rightarrow> node" where
  "BlockToolbar hideDragHandle st showMovers isSmallerViewport =
     (let sel = mapSelect st
      in Div ''block-editor-block-toolbar'' (Some ContainerNodeRef) False None
           [Div ''block-editor-block-toolbar__mover-switcher-container'' (Some NodeRef)
                False None
              [Div ''block-editor-block-toolbar__mover-trigger-container'' None True None
                 [Div ''block-editor-block-toolbar__mover-trigger-wrapper'' None False
                      (Some (animatedMoverStyles
                               (shouldShowMovers sel showMovers isSmallerViewport)))
                    [BlockMover (blockClientIds sel) (moverDirection sel) hideDragHandle]],
               jsx_and (js_or (shouldShowVisualToolbar sel) (JBool (isMultiToolbar sel)))
                 (Div ''block-editor-block-toolbar__block-switcher-wrapper'' None True None
                    [BlockSwitcher (blockClientIds sel)])],
            jsx_and (js_and (shouldShowVisualToolbar sel) (JBool (\<not> isMultiToolbar sel)))
              (Fragment
                 [BlockControls_Slot True ''block-editor-block-toolbar__slot'',
                  BlockFormatControls_Slot True ''block-editor-block-toolbar__slot'']),
            BlockSettingsMenu (blockClientIds sel)])"

text \<open>Every node of a tree, the root first, in document order.\<close>

fun subnodes :: "node \<Rightarrow> node list" where
  "subnodes (Div c r g s kids) = Div c r g s kids # concat (map subnodes kids)"
| "subnodes (Fragment kids) = Fragment kids # concat (map subnodes kids)"
| "subnodes n = [n]"

fun is_BlockControls_Slot :: "node \<Rightarrow> bool" where
  "is_BlockControls_Slot (BlockControls_Slot b c) = True"
| "is_BlockControls_Slot n = False"

fun is_BlockFormatControls_Slot :: "node \<Rightarrow> bool" where
  "is_BlockFormatControls_Slot (BlockFormatControls_Slot b c) = True"
| "is_BlockFormatControls_Slot n = False"

fun is_BlockMover :: "node \<Rightarrow> bool" where
  "is_BlockMover (BlockMover ids dir h) = True"
| "is_BlockMover n = False"

fun has_className :: "string \<Rightarrow> node \<Rightarrow> bool" where
  "has_className c (Div c' r g s kids) = (c = c')"
| "has_className c n = False"

definition renders :: "(node \<Rightarrow> bool) \<Rightarrow> node \<Rightarrow> bool" where
  "renders P t = list_ex P (subnodes t)"

text \<open>
  The condition of the format controls, read off the store: exactly one block is
  selected, the store calls it valid, and its mode is the string \<^verbatim>\<open>visual\<close>.
\<close>

definition one_valid_visual_block :: "block_editor_store \<Rightarrow> bool" where
  "one_valid_visual_block st =
     (length (getSelectedBlockClientIds st) = 1 \<and>
      truthy (isBlockValid st (index0 (getSelectedBlockClientIds st))) \<and>
      getBlockMode st (index0 (getSelectedBlockClientIds st)) = JStr ''visual'')"

section \<open>Example stores\<close>

text \<open>
  A store with the given selection in which every block is valid and in visual mode,
  no block has a parent and no block list has settings.
\<close>

definition plain_store :: "string list \<Rightarrow> block_editor_store" where
  "plain_store ids =
     \<lparr>getSelectedBlockClientIds = ids,
      getBlockRootClientId = (\<lambda>_. JStr ''''),
      getBlockListSettings = (\<lambda>_. None),
      isBlockValid = (\<lambda>_. JBool True),
      getBlockMode = (\<lambda>_. JStr ''visual'')\<rparr>"

text \<open>The same store with one block selected, shown in its HTML editing mode.\<close>

definition html_store :: block_editor_store where
  "html_store = (plain_store [''a''])\<lparr>getBlockMode := (\<lambda>_. JStr ''html'')\<rparr>"

text \<open>A store whose root block list switches the movers off.\<close>

definition no_movers_store :: block_editor_store where
  "no_movers_store =
     (plain_store [''a''])
       \<lparr>getBlockListSettings :=
          (\<lambda>_. Some \<lparr>experimentalMoverDirection = JStr ''horizontal'',
                      experimentalUIParts = Some \<lparr>parts_hasMovers = JBool False\<rparr>\<rparr>)\<rparr>"

section \<open>Format controls\<close>

lemma mapSelect_blockClientIds: "blockClientIds (mapSelect st) = getSelectedBlockClientIds st"
  by (simp add: mapSelect_def Let_def)

lemma mapSelect_not_single:
  "length (getSelectedBlockClientIds st) \<noteq> 1 \<Longrightarrow>
     isValid (mapSelect st) = JNull \<and> mode (mapSelect st) = JNull"
  by (simp add: mapSelect_def Let_def)

lemma mapSelect_single:
  "length (getSelectedBlockClientIds st) = 1 \<Longrightarrow>
     isValid (mapSelect st) = isBlockValid st (index0 (getSelectedBlockClientIds st)) \<and>
     mode (mapSelect st) = getBlockMode st (index0 (getSelectedBlockClientIds st))"
  by (simp add: mapSelect_def Let_def)

lemma truthy_shouldShowVisualToolbar:
  "truthy (shouldShowVisualToolbar sel) = (truthy (isValid sel) \<and> mode sel = JStr ''visual'')"
  by (simp add: shouldShowVisualToolbar_def js_and_def strict_eq_def)

text \<open>
  The third child of the toolbar is the fragment of the two slots when the guard
  \<^verbatim>\<open>shouldShowVisualToolbar && ! isMultiToolbar\<close> is truthy, and the falsy value of
  the guard otherwise.
\<close>

lemma format_guard:
  "truthy (js_and (shouldShowVisualToolbar (mapSelect st))
             (JBool (\<not> isMultiToolbar (mapSelect st))))
     = one_valid_visual_block st"
proof (cases "length (getSelectedBlockClientIds st) = 1")
  case True
  then show ?thesis
    using mapSelect_single [OF True]
    by (simp add: js_and_def truthy_shouldShowVisualToolbar isMultiToolbar_def
        mapSelect_blockClientIds one_valid_visual_block_def)
next
  case False
  then show ?thesis
    using mapSelect_not_single [OF False]
    by (simp add: js_and_def truthy_shouldShowVisualToolbar one_valid_visual_block_def)
qed

lemma renders_slots:
  "renders is_BlockControls_Slot (BlockToolbar h st sm sv) = one_valid_visual_block st"
  "renders is_BlockFormatControls_Slot (BlockToolbar h st sm sv) = one_valid_visual_block st"
  using format_guard [of st]
  by (simp_all add: BlockToolbar_def Let_def renders_def jsx_and_def)

text \<open>
  C1. Whatever the store holds, the toolbar renders \<^verbatim>\<open>BlockControls.Slot\<close>, and
  likewise \<^verbatim>\<open>BlockFormatControls.Slot\<close>, if and only if exactly one block is
  selected, the store reports that block as valid and its mode is \<^verbatim>\<open>visual\<close>.
  When the number of selected blocks is not one, \<^verbatim>\<open>isValid\<close> and \<^verbatim>\<open>mode\<close> are
  both \<^verbatim>\<open>null\<close> and neither slot is rendered.
\<close>

theorem BlockToolbar_format_controls:
  "renders is_BlockControls_Slot (BlockToolbar h st sm sv) = one_valid_visual_block st \<and>
   renders is_BlockFormatControls_Slot (BlockToolbar h st sm sv) = one_valid_visual_block st \<and>
   (length (getSelectedBlockClientIds st) \<noteq> 1 \<longrightarrow>
      isValid (mapSelect st) = JNull \<and> mode (mapSelect st) = JNull \<and>
      \<not> renders is_BlockControls_Slot (BlockToolbar h st sm sv) \<and>
      \<not> renders is_BlockFormatControls_Slot (BlockToolbar h st sm sv))"
proof -
  have "\<not> one_valid_visual_block st" if "length (getSelectedBlockClientIds st) \<noteq> 1"
    using that by (simp add: one_valid_visual_block_def)
  then show ?thesis
    using mapSelect_not_single [of st] by (simp add: renders_slots)
qed

text \<open>
  The theorem at three stores: one valid block in visual mode (both slots), one valid
  block in HTML mode (no slot), and two selected blocks (\<^verbatim>\<open>null\<close>, no slot).
\<close>

theorem BlockToolbar_format_controls_witness:
  "renders is_BlockControls_Slot (BlockToolbar JUndefined (plain_store [''a'']) False False) \<and>
   renders is_BlockFormatControls_Slot
     (BlockToolbar JUndefined (plain_store [''a'']) False False) \<and>
   \<not> renders is_BlockControls_Slot (BlockToolbar JUndefined html_store False False) \<and>
   \<not> renders is_BlockFormatControls_Slot (BlockToolbar JUndefined html_store False False) \<and>
   length (getSelectedBlockClientIds (plain_store [''a'', ''b''])) \<noteq> 1 \<and>
   isValid (mapSelect (plain_store [''a'', ''b''])) = JNull \<and>
   mode (mapSelect (plain_store [''a'', ''b''])) = JNull \<and>
   \<not> renders is_BlockControls_Slot
       (BlockToolbar JUndefined (plain_store [''a'', ''b'']) False False) \<and>
   \<not> renders is_BlockFormatControls_Slot
       (BlockToolbar JUndefined (plain_store [''a'', ''b'']) False False)"
  using BlockToolbar_format_controls [of JUndefined "plain_store [''a'']" False False]
    BlockToolbar_format_controls [of JUndefined html_store False False]
    BlockToolbar_format_controls [of JUndefined "plain_store [''a'', ''b'']" False False]
  by (simp add: one_valid_visual_block_def plain_store_def html_store_def index0_def)

section \<open>The block mover\<close>

lemma truthy_shouldShowMovers:
  "truthy (shouldShowMovers sel sm sv)
     = (sv \<or> (sm \<and> truthy (with_default (JBool True) (hasMovers sel))))"
  by (simp add: shouldShowMovers_def js_or_def js_and_def)

text \<open>
  C2, as stated, fails. With a large viewport and the gesture state inactive
  (\<^verbatim>\<open>shouldShowMovers\<close> is falsy) the \<^verbatim>\<open>BlockMover\<close> is still in the output;
  so it is when the gesture state is active and the block list settings switch the
  movers off.
\<close>

theorem BlockMover_absent_counterexample:
  "\<not> truthy (shouldShowMovers (mapSelect (plain_store [''a''])) False False) \<and>
   renders is_BlockMover (BlockToolbar JUndefined (plain_store [''a'']) False False) \<and>
   \<not> truthy (shouldShowMovers (mapSelect no_movers_store) True False) \<and>
   renders is_BlockMover (BlockToolbar JUndefined no_movers_store True False)"
  by (simp add: truthy_shouldShowMovers with_default_def mapSelect_def Let_def
      plain_store_def no_movers_store_def empty_object_def empty_parts_def
      BlockToolbar_def renders_def jsx_and_def)

text \<open>
  C2, amended. The toolbar always renders the \<^verbatim>\<open>BlockMover\<close>, exactly once, as the
  only child of the mover trigger wrapper, with the selected client ids, the mover
  direction of the settings and the \<^verbatim>\<open>hideDragHandle\<close> prop. What depends on the
  viewport and the gesture state is the wrapper's inline style: opacity 1 and no
  translation when the viewport is smaller, or the gesture state is active and
  \<^verbatim>\<open>hasMovers\<close> (\<^verbatim>\<open>true\<close> unless the settings define it) is truthy; opacity 0
  and a translation by 100% otherwise.
\<close>

theorem BlockToolbar_mover_always_rendered:
  "filter is_BlockMover (subnodes (BlockToolbar h st sm sv))
     = [BlockMover (getSelectedBlockClientIds st) (moverDirection (mapSelect st)) h] \<and>
   filter (has_className ''block-editor-block-toolbar__mover-trigger-wrapper'')
       (subnodes (BlockToolbar h st sm sv))
     = [Div ''block-editor-block-toolbar__mover-trigger-wrapper'' None False
          (Some (if sv \<or> (sm \<and> truthy (with_default (JBool True) (hasMovers (mapSelect st))))
                 then \<lparr>opacity = 1, transform = ''translateX(0px)''\<rparr>
                 else \<lparr>opacity = 0, transform = ''translateX(100%)''\<rparr>))
          [BlockMover (getSelectedBlockClientIds st) (moverDirection (mapSelect st)) h]]"
  by (simp add: BlockToolbar_def Let_def jsx_and_def mapSelect_blockClientIds
      animatedMoverStyles_def truthy_shouldShowMovers)

text \<open>
  The theorem at two inputs: the gesture state active over a block list without
  settings (shown), and over one whose settings switch the movers off (hidden).
\<close>

theorem BlockToolbar_mover_always_rendered_witness:
  "filter is_BlockMover (subnodes (BlockToolbar JUndefined (plain_store [''a'']) True False))
     = [BlockMover [''a''] JUndefined JUndefined] \<and>
   filter (has_className ''block-editor-block-toolbar__mover-trigger-wrapper'')
       (subnodes (BlockToolbar JUndefined (plain_store [''a'']) True False))
     = [Div ''block-editor-block-toolbar__mover-trigger-wrapper'' None False
          (Some \<lparr>opacity = 1, transform = ''translateX(0px)''\<rparr>)
          [BlockMover [''a''] JUndefined JUndefined]] \<and>
   filter is_BlockMover (subnodes (BlockToolbar JUndefined no_movers_store True False))
     = [BlockMover [''a''] (JStr ''horizontal'') JUndefined] \<and>
   filter (has_className ''block-editor-block-toolbar__mover-trigger-wrapper'')
       (subnodes (BlockToolbar JUndefined no_movers_store True False))
     = [Div ''block-editor-block-toolbar__mover-trigger-wrapper'' None False
          (Some \<lparr>opacity = 0, transform = ''translateX(100%)''\<rparr>)
          [BlockMover [''a''] (JStr ''horizontal'') JUndefined]]"
  using BlockToolbar_mover_always_rendered [of JUndefined "plain_store [''a'']" True False]
    BlockToolbar_mover_always_rendered [of JUndefined no_movers_store True False]
  by (simp add: with_default_def mapSelect_def Let_def plain_store_def no_movers_store_def
      empty_object_def empty_parts_def)

end
